theory Spec2Isabelle
  imports Complex_Main "HOL-Library.Word"
begin

section \<open>JavaScript values\<close>

text \<open>
  \<^verbatim>\<open>lib/bindings/base.js\<close> inspects its arguments with \<^verbatim>\<open>typeof\<close>, with
  \<^verbatim>\<open>Buffer.isBuffer\<close>, with truthiness tests (\<^verbatim>\<open>!path\<close>, \<^verbatim>\<open>!this.isOpen\<close>) and with
  one numeric comparison. The values are therefore modelled with their runtime type tag.

  A number is an IEEE double: not-a-number, an infinity, or a finite value, which is a
  rational. Functions and symbols are opaque. An object is the list of its properties;
  a Buffer is its bytes.
\<close>

datatype jsnum = NaN | PosInfinity | NegInfinity | Finite rat

datatype jsval =
    JUndefined
  | JNull
  | JBool bool
  | JNum jsnum
  | JBigInt int
  | JStr string
  | JSym string
  | JFun nat
  | JObj "(string \<times> jsval) list"
  | JArr "jsval list"
  | JBuf "8 word list"

text \<open>The \<^verbatim>\<open>typeof\<close> operator. Note that \<^verbatim>\<open>typeof null\<close> is \<^verbatim>\<open>'object'\<close>.\<close>

fun typeof :: "jsval \<Rightarrow> string" where
  "typeof JUndefined = ''undefined''"
| "typeof JNull = ''object''"
| "typeof (JBool _) = ''boolean''"
| "typeof (JNum _) = ''number''"
| "typeof (JBigInt _) = ''bigint''"
| "typeof (JStr _) = ''string''"
| "typeof (JSym _) = ''symbol''"
| "typeof (JFun _) = ''function''"
| "typeof (JObj _) = ''object''"
| "typeof (JArr _) = ''object''"
| "typeof (JBuf _) = ''object''"

text \<open>
  Truthiness, as \<^verbatim>\<open>if (v)\<close> and \<^verbatim>\<open>!v\<close> decide it: \<^verbatim>\<open>undefined\<close>, \<^verbatim>\<open>null\<close>,
  \<^verbatim>\<open>false\<close>, zero, \<^verbatim>\<open>NaN\<close> and the empty string are falsy, everything else is truthy.
\<close>

fun truthy :: "jsval \<Rightarrow> bool" where
  "truthy JUndefined = False"
| "truthy JNull = False"
| "truthy (JBool b) = b"
| "truthy (JNum NaN) = False"
| "truthy (JNum (Finite q)) = (q \<noteq> 0)"
| "truthy (JNum _) = True"
| "truthy (JBigInt i) = (i \<noteq> 0)"
| "truthy (JStr s) = (s \<noteq> [])"
| "truthy _ = True"

text \<open>\<^verbatim>\<open>Buffer.isBuffer(v)\<close> and \<^verbatim>\<open>buffer.length\<close> (the number of bytes).\<close>

fun isBuffer :: "jsval \<Rightarrow> bool" where
  "isBuffer (JBuf _) = True"
| "isBuffer _ = False"

fun buffer_length :: "jsval \<Rightarrow> jsnum" where
  "buffer_length (JBuf bytes) = Finite (of_nat (length bytes))"
| "buffer_length _ = NaN"

text \<open>
  The program throws \<^verbatim>\<open>TypeError\<close>s and rejects promises with plain \<^verbatim>\<open>Error\<close>s; each
  carries its message.
\<close>

datatype js_error = is_TypeError: TypeError string | Error string

text \<open>
  Reading a property \<^verbatim>\<open>v.k\<close>. On \<^verbatim>\<open>undefined\<close> and \<^verbatim>\<open>null\<close> the engine itself throws
  a \<^verbatim>\<open>TypeError\<close>. On a plain object the property is looked up and is \<^verbatim>\<open>undefined\<close>
  when absent. The program only reads \<^verbatim>\<open>disconnect\<close>, \<^verbatim>\<open>baudRate\<close> and \<^verbatim>\<open>isOpen\<close>,
  which no other kind of value carries.
\<close>

definition own :: "(string \<times> jsval) list \<Rightarrow> string \<Rightarrow> jsval" where
  "own props k = (case map_of props k of None \<Rightarrow> JUndefined | Some v \<Rightarrow> v)"

fun get_property :: "jsval \<Rightarrow> string \<Rightarrow> js_error + jsval" where
  "get_property JUndefined k =
     Inl (TypeError (''Cannot read property '' @ k @ '' of undefined''))"
| "get_property JNull k =
     Inl (TypeError (''Cannot read property '' @ k @ '' of null''))"
| "get_property (JObj props) k = Inr (own props k)"
| "get_property _ k = Inr JUndefined"

subsection \<open>Numbers\<close>

text \<open>
  \<^verbatim>\<open>a + b\<close> on two numbers. The sum of two finite doubles is the exact sum rounded to a
  double (or to an infinity on overflow); the rounding is a parameter \<open>rnd\<close> of the
  model, so that nothing proved below depends on how it rounds.
\<close>

type_synonym rounding = "rat \<Rightarrow> jsnum"

fun num_add :: "rounding \<Rightarrow> jsnum \<Rightarrow> jsnum \<Rightarrow> jsnum" where
  "num_add rnd NaN _ = NaN"
| "num_add rnd _ NaN = NaN"
| "num_add rnd PosInfinity NegInfinity = NaN"
| "num_add rnd NegInfinity PosInfinity = NaN"
| "num_add rnd PosInfinity _ = PosInfinity"
| "num_add rnd _ PosInfinity = PosInfinity"
| "num_add rnd NegInfinity _ = NegInfinity"
| "num_add rnd _ NegInfinity = NegInfinity"
| "num_add rnd (Finite a) (Finite b) = rnd (a + b)"

text \<open>\<^verbatim>\<open>a < b\<close> on two numbers: false as soon as one of them is \<^verbatim>\<open>NaN\<close>.\<close>

fun num_lt :: "jsnum \<Rightarrow> jsnum \<Rightarrow> bool" where
  "num_lt NaN _ = False"
| "num_lt _ NaN = False"
| "num_lt (Finite a) (Finite b) = (a < b)"
| "num_lt PosInfinity _ = False"
| "num_lt _ NegInfinity = False"
| "num_lt _ _ = True"

text \<open>The number held by a value whose \<^verbatim>\<open>typeof\<close> is \<^verbatim>\<open>'number'\<close>.\<close>

fun the_number :: "jsval \<Rightarrow> jsnum" where
  "the_number (JNum n) = n"
| "the_number _ = NaN"

section \<open>The binding\<close>

text \<open>
  A binding object \<^verbatim>\<open>this\<close> is the list of its own properties. The class reads one of
  them, \<^verbatim>\<open>this.isOpen\<close>, and assigns none.

  A call either throws synchronously or returns a promise, which is settled: resolved
  with a value or rejected with an error. \<^verbatim>\<open>Promise.resolve()\<close> resolves with
  \<^verbatim>\<open>undefined\<close>.
\<close>

type_synonym binding = "(string \<times> jsval) list"

definition isOpen :: "binding \<Rightarrow> jsval" where
  "isOpen this = own this ''isOpen''"

datatype promise = Resolved jsval | Rejected js_error

datatype completion = is_Throw: Throw js_error | Return promise

text \<open>\<^verbatim>\<open>static list()\<close>\<close>

definition list_ports :: completion where
  "list_ports = Return (Resolved JUndefined)"

text \<open>
  \<^verbatim>\<open>constructor(opt)\<close>: \<^verbatim>\<open>new BaseBinding(opt)\<close> throws or yields the new object, which
  has no property of its own since the constructor assigns none.
\<close>

definition constructor :: "jsval \<Rightarrow> js_error + binding" where
  \<open>constructor opt =
     (if typeof opt \<noteq> ''object'' then Inl (TypeError ''"options" is not an object'')
      else case get_property opt ''disconnect'' of
        Inl e \<Rightarrow> Inl e
      | Inr disconnect \<Rightarrow>
          if typeof disconnect \<noteq> ''function''
          then Inl (TypeError ''"options.disconnect" is not a function'')
          else Inr [])\<close>

text \<open>
  The methods. Each returns its completion together with the binding after the call;
  \<^verbatim>\<open>read\<close> and \<^verbatim>\<open>write\<close> also return the buffer after the call. The methods
  \<^verbatim>\<open>open\<close>, \<^verbatim>\<open>write\<close> and \<^verbatim>\<open>set\<close> are \<open>open_port\<close>, \<open>write_buffer\<close> and
  \<open>set_flags\<close> here.
\<close>

definition open_port :: "binding \<Rightarrow> jsval \<Rightarrow> jsval \<Rightarrow> completion \<times> binding" where
  \<open>open_port this path options =
     (if \<not> truthy path then (Throw (TypeError ''"path" is not a valid port''), this)
      else if typeof options \<noteq> ''object''
        then (Throw (TypeError ''"options" is not an object''), this)
      else if truthy (isOpen this) then (Return (Rejected (Error ''Already open'')), this)
      else (Return (Resolved JUndefined), this))\<close>

definition close :: "binding \<Rightarrow> completion \<times> binding" where
  "close this =
     (if \<not> truthy (isOpen this) then (Return (Rejected (Error ''Port is not open'')), this)
      else (Return (Resolved JUndefined), this))"

definition read ::
  "rounding \<Rightarrow> binding \<Rightarrow> jsval \<Rightarrow> jsval \<Rightarrow> jsval \<Rightarrow> completion \<times> binding \<times> jsval" where
  \<open>read rnd this buffer offset len =
     (if \<not> isBuffer buffer then (Throw (TypeError ''"buffer" is not a Buffer''), this, buffer)
      else if typeof offset \<noteq> ''number''
        then (Throw (TypeError ''"offset" is not an integer''), this, buffer)
      else if typeof len \<noteq> ''number''
        then (Throw (TypeError ''"length" is not an integer''), this, buffer)
      else if num_lt (buffer_length buffer) (num_add rnd (the_number offset) (the_number len))
        then (Return (Rejected (Error ''buffer is too small'')), this, buffer)
      else if \<not> truthy (isOpen this)
        then (Return (Rejected (Error ''Port is not open'')), this, buffer)
      else (Return (Resolved JUndefined), this, buffer))\<close>

definition write_buffer :: "binding \<Rightarrow> jsval \<Rightarrow> completion \<times> binding \<times> jsval" where
  \<open>write_buffer this buffer =
     (if \<not> isBuffer buffer then (Throw (TypeError ''"buffer" is not a Buffer''), this, buffer)
      else if \<not> truthy (isOpen this)
        then (Return (Rejected (Error ''Port is not open'')), this, buffer)
      else (Return (Resolved JUndefined), this, buffer))\<close>

definition update :: "binding \<Rightarrow> jsval \<Rightarrow> completion \<times> binding" where
  \<open>update this options =
     (if typeof options \<noteq> ''object''
        then (Throw (TypeError ''"options" is not an object''), this)
      else case get_property options ''baudRate'' of
        Inl e \<Rightarrow> (Throw e, this)
      | Inr baudRate \<Rightarrow>
          if typeof baudRate \<noteq> ''number''
            then (Throw (TypeError ''"options.baudRate" is not a number''), this)
          else if \<not> truthy (isOpen this)
            then (Return (Rejected (Error ''Port is not open'')), this)
          else (Return (Resolved JUndefined), this))\<close>

definition set_flags :: "binding \<Rightarrow> jsval \<Rightarrow> completion \<times> binding" where
  \<open>set_flags this options =
     (if typeof options \<noteq> ''object''
        then (Throw (TypeError ''"options" is not an object''), this)
      else if \<not> truthy (isOpen this)
        then (Return (Rejected (Error ''Port is not open'')), this)
      else (Return (Resolved JUndefined), this))\<close>

definition get :: "binding \<Rightarrow> completion \<times> binding" where
  "get this =
     (if \<not> truthy (isOpen this) then (Return (Rejected (Error ''Port is not open'')), this)
      else (Return (Resolved JUndefined), this))"

definition flush :: "binding \<Rightarrow> completion \<times> binding" where
  "flush this =
     (if \<not> truthy (isOpen this) then (Return (Rejected (Error ''Port is not open'')), this)
      else (Return (Resolved JUndefined), this))"

definition drain :: "binding \<Rightarrow> completion \<times> binding" where
  "drain this =
     (if \<not> truthy (isOpen this) then (Return (Rejected (Error ''Port is not open'')), this)
      else (Return (Resolved JUndefined), this))"

section \<open>Calls and sequences of calls\<close>

text \<open>
  A call of one of the nine instance methods with its arguments, and the dispatch to
  the method. A sequence of calls is issued one at a time, each on the binding the
  previous one left.
\<close>

datatype call =
    Open jsval jsval
  | Close
  | Read jsval jsval jsval
  | Write jsval
  | Update jsval
  | Set jsval
  | Get
  | Flush
  | Drain

fun invoke :: "rounding \<Rightarrow> binding \<Rightarrow> call \<Rightarrow> completion \<times> binding" where
  "invoke rnd this (Open path options) = open_port this path options"
| "invoke rnd this Close = close this"
| "invoke rnd this (Read buffer offset len) =
     (case read rnd this buffer offset len of (r, this', _) \<Rightarrow> (r, this'))"
| "invoke rnd this (Write buffer) =
     (case write_buffer this buffer of (r, this', _) \<Rightarrow> (r, this'))"
| "invoke rnd this (Update options) = update this options"
| "invoke rnd this (Set options) = set_flags this options"
| "invoke rnd this Get = get this"
| "invoke rnd this Flush = flush this"
| "invoke rnd this Drain = drain this"

fun run :: "rounding \<Rightarrow> binding \<Rightarrow> call list \<Rightarrow> completion list \<times> binding" where
  "run rnd this [] = ([], this)"
| "run rnd this (c # cs) =
     (case invoke rnd this c of (r, this') \<Rightarrow>
        (case run rnd this' cs of (rs, this'') \<Rightarrow> (r # rs, this'')))"

section \<open>The vocabulary of the specification\<close>

text \<open>
  The specification names the failures: \<open>InvalidArgument\<close> is a thrown
  \<^verbatim>\<open>TypeError\<close>; \<open>NotOpen\<close>, \<open>AlreadyOpen\<close> and \<open>BufferTooSmall\<close> are the three
  \<^verbatim>\<open>Error\<close>s the class rejects with. The last three are the state-level failures.
\<close>

abbreviation NotOpen :: js_error where
  "NotOpen \<equiv> Error ''Port is not open''"

abbreviation AlreadyOpen :: js_error where
  "AlreadyOpen \<equiv> Error ''Already open''"

abbreviation BufferTooSmall :: js_error where
  "BufferTooSmall \<equiv> Error ''buffer is too small''"


text \<open>
  A configuration the constructor accepts is an object-shaped value whose
  \<^verbatim>\<open>disconnect\<close> property can be read and is a function; options that \<^verbatim>\<open>update\<close> accepts
  are object-shaped with a \<^verbatim>\<open>baudRate\<close> that can be read and is a number.
\<close>

definition disconnect_invocable :: "jsval \<Rightarrow> bool" where
  "disconnect_invocable opt =
     (case get_property opt ''disconnect'' of
        Inl _ \<Rightarrow> False
      | Inr disconnect \<Rightarrow> typeof disconnect = ''function'')"

definition baudRate_numeric :: "jsval \<Rightarrow> bool" where
  "baudRate_numeric options =
     (case get_property options ''baudRate'' of
        Inl _ \<Rightarrow> False
      | Inr baudRate \<Rightarrow> typeof baudRate = ''number'')"

text \<open>
  The arguments of a call pass the type tests of its method, as the code makes them:
  \<^verbatim>\<open>Buffer.isBuffer\<close> for the buffer, \<^verbatim>\<open>typeof\<close> for offset, length, baud rate and
  options, truthiness for the path. This is the code's test, not the specification's
  notion: \<^verbatim>\<open>typeof null\<close> is \<^verbatim>\<open>'object'\<close>, so \<^verbatim>\<open>null\<close> options pass in \<^verbatim>\<open>open\<close> and
  \<^verbatim>\<open>set\<close>. The calls without arguments always pass.
\<close>

fun well_typed :: "call \<Rightarrow> bool" where
  "well_typed (Open path options) = (truthy path \<and> typeof options = ''object'')"
| "well_typed (Read buffer offset len) =
     (isBuffer buffer \<and> typeof offset = ''number'' \<and> typeof len = ''number'')"
| "well_typed (Write buffer) = isBuffer buffer"
| "well_typed (Update options) = (typeof options = ''object'' \<and> baudRate_numeric options)"
| "well_typed (Set options) = (typeof options = ''object'')"
| "well_typed _ = True"



text \<open>The I/O operations are all the calls but \<^verbatim>\<open>open\<close>.\<close>

fun io_operation :: "call \<Rightarrow> bool" where
  "io_operation (Open _ _) = False"
| "io_operation _ = True"

text \<open>
  A \<^verbatim>\<open>read\<close> asks for more than the buffer holds: \<^verbatim>\<open>buffer.length < offset + length\<close>,
  with the sum and the comparison of the program.
\<close>

fun exceeds_capacity :: "rounding \<Rightarrow> call \<Rightarrow> bool" where
  "exceeds_capacity rnd (Read buffer offset len) =
     num_lt (buffer_length buffer) (num_add rnd (the_number offset) (the_number len))"
| "exceeds_capacity rnd _ = False"

text \<open>A completion that is a promise resolved with a sequence.\<close>

fun resolves_to_sequence :: "completion \<Rightarrow> bool" where
  "resolves_to_sequence (Return (Resolved (JArr _))) = True"
| "resolves_to_sequence _ = False"

text \<open>
  The configuration, the path and the options of the lifecycle scenario:
  \<^verbatim>\<open>{disconnect() {}}\<close>, \<^verbatim>\<open>"COM_TEST"\<close> and \<^verbatim>\<open>{baudRate: 9600}\<close>.
\<close>

definition test_config :: jsval where
  "test_config = JObj [(''disconnect'', JFun 0)]"

definition test_path :: jsval where
  "test_path = JStr ''COM_TEST''"

definition test_options :: jsval where
  "test_options = JObj [(''baudRate'', JNum (Finite 9600))]"

section \<open>Unfolding the methods\<close>

lemmas method_defs = open_port_def close_def read_def write_buffer_def update_def
  set_flags_def get_def flush_def drain_def

section \<open>Construction\<close>

text \<open>
  C2, as the code has it: for every configuration the constructor accepts, construction
  succeeds and the new binding has no \<^verbatim>\<open>isOpen\<close> property at all. Reading it gives
  \<^verbatim>\<open>undefined\<close>, which is falsy, so that every state check of the class takes the new
  binding for a closed one; but the value is not \<^verbatim>\<open>false\<close>.
\<close>

theorem constructed_isOpen_undefined:
  assumes "typeof opt = ''object''" and "disconnect_invocable opt"
  shows "\<exists>this. constructor opt = Inr this \<and> isOpen this = JUndefined \<and> \<not> truthy (isOpen this)"
  using assms
  by (auto simp: constructor_def disconnect_invocable_def isOpen_def own_def
      split: sum.splits)

theorem constructed_isOpen_undefined_witness:
  "\<exists>this. constructor (JObj [(''disconnect'', JFun 0)]) = Inr this
     \<and> isOpen this = JUndefined \<and> \<not> truthy (isOpen this)"
  using constructed_isOpen_undefined [of "JObj [(''disconnect'', JFun 0)]"]
  by (simp add: disconnect_invocable_def own_def)

text \<open>
  C2 as stated fails: after \<^verbatim>\<open>new BaseBinding({disconnect() {}})\<close> the property
  \<^verbatim>\<open>isOpen\<close> is \<^verbatim>\<open>undefined\<close>, not \<^verbatim>\<open>false\<close>.
\<close>

theorem constructed_isOpen_not_false:
  "constructor (JObj [(''disconnect'', JFun 0)]) = Inr []
     \<and> typeof (JObj [(''disconnect'', JFun 0)]) = ''object''
     \<and> disconnect_invocable (JObj [(''disconnect'', JFun 0)])
     \<and> isOpen [] \<noteq> JBool False"
  by (simp add: constructor_def disconnect_invocable_def isOpen_def own_def)

text \<open>
  C6: for every constructor argument, construction throws a \<^verbatim>\<open>TypeError\<close>
  (\<open>InvalidArgument\<close>) whenever the argument is not object-shaped or its
  \<^verbatim>\<open>disconnect\<close> is not a function. A throw is synchronous: the result is the error, no
  binding and no promise. In particular a plain object whose \<^verbatim>\<open>disconnect\<close> is not a
  function is refused with the message \<^verbatim>\<open>"options.disconnect" is not a function\<close>,
  whatever else it holds. For \<^verbatim>\<open>null\<close>, which \<^verbatim>\<open>typeof\<close> takes for an object, the
  \<^verbatim>\<open>TypeError\<close> is the engine's, raised by reading \<^verbatim>\<open>opt.disconnect\<close>.
\<close>

theorem constructor_rejects_invalid:
  assumes "typeof opt \<noteq> ''object'' \<or> \<not> disconnect_invocable opt"
  shows \<open>(\<exists>msg. constructor opt = Inl (TypeError msg))
    \<and> (\<forall>props. opt = JObj props \<longrightarrow>
          constructor opt = Inl (TypeError ''"options.disconnect" is not a function''))\<close>
  using assms
  by (cases opt) (auto simp: constructor_def disconnect_invocable_def)

theorem constructor_rejects_invalid_witness:
  \<open>(\<exists>msg. constructor (JStr ''COM1'') = Inl (TypeError msg))
   \<and> (\<exists>msg. constructor JNull = Inl (TypeError msg))
   \<and> constructor (JObj [(''disconnect'', JNum (Finite 1))])
       = Inl (TypeError ''"options.disconnect" is not a function'')\<close>
  using constructor_rejects_invalid [of "JStr ''COM1''"]
    constructor_rejects_invalid [of JNull]
    constructor_rejects_invalid [of "JObj [(''disconnect'', JNum (Finite 1))]"]
  by (simp add: disconnect_invocable_def own_def)

section \<open>Enumeration\<close>

text \<open>
  C8, as the code has it: \<^verbatim>\<open>list()\<close> of the base class never throws and never rejects;
  it returns a promise resolved with \<^verbatim>\<open>undefined\<close>. It enumerates nothing, so the
  resolved value is no sequence, not even the empty one.
\<close>

theorem list_resolves_undefined:
  "list_ports = Return (Resolved JUndefined) \<and> \<not> is_Throw list_ports"
  by (simp add: list_ports_def)

text \<open>C8 as stated fails: what \<^verbatim>\<open>list()\<close> resolves with is not a sequence.\<close>

theorem list_resolves_no_sequence:
  "\<not> resolves_to_sequence list_ports"
  by (simp add: list_ports_def)

section \<open>Opening and closing\<close>

text \<open>
  C4: on a binding whose \<^verbatim>\<open>isOpen\<close> is true (or any truthy value), \<^verbatim>\<open>open\<close> with a
  non-empty path string and object-shaped options returns a promise rejected with
  \<open>AlreadyOpen\<close> (it does not throw) and leaves the binding as it was.
\<close>

theorem open_while_open:
  assumes "truthy (isOpen this)" and "p \<noteq> []" and "typeof options = ''object''"
  shows "open_port this (JStr p) options = (Return (Rejected AlreadyOpen), this)
    \<and> \<not> is_Throw (fst (open_port this (JStr p) options))"
  using assms by (simp add: open_port_def)

theorem open_while_open_witness:
  "open_port [(''isOpen'', JBool True)] test_path test_options
     = (Return (Rejected AlreadyOpen), [(''isOpen'', JBool True)])"
  using open_while_open [of "[(''isOpen'', JBool True)]" "''COM_TEST''" test_options]
  by (simp add: isOpen_def own_def test_path_def test_options_def)

text \<open>
  C3, as the code has it. The base class checks \<^verbatim>\<open>isOpen\<close> and never assigns it.
  From the freshly constructed binding, \<^verbatim>\<open>open("COM_TEST", {baudRate: 9600})\<close> resolves
  and \<^verbatim>\<open>isOpen\<close> stays unset, a second \<^verbatim>\<open>open\<close> resolves again, and \<^verbatim>\<open>close()\<close>
  rejects with \<open>NotOpen\<close>. In any state where \<^verbatim>\<open>isOpen\<close> is true, \<^verbatim>\<open>open\<close> rejects with
  \<open>AlreadyOpen\<close> and the \<^verbatim>\<open>close()\<close> after it resolves; in any state where \<^verbatim>\<open>isOpen\<close>
  is false, \<^verbatim>\<open>close()\<close> rejects with \<open>NotOpen\<close>. None of these calls changes the
  binding.
\<close>

theorem lifecycle_of_base_binding:
  "constructor test_config = Inr []
   \<and> run rnd [] [Open test_path test_options, Open test_path test_options, Close]
       = ([Return (Resolved JUndefined), Return (Resolved JUndefined), Return (Rejected NotOpen)], [])
   \<and> isOpen [] = JUndefined
   \<and> (truthy (isOpen this) \<longrightarrow>
        run rnd this [Open test_path test_options, Close]
          = ([Return (Rejected AlreadyOpen), Return (Resolved JUndefined)], this))
   \<and> (\<not> truthy (isOpen this) \<longrightarrow>
        run rnd this [Close] = ([Return (Rejected NotOpen)], this))"
  by (simp add: constructor_def test_config_def test_path_def test_options_def
      isOpen_def own_def open_port_def close_def)

theorem lifecycle_of_base_binding_witness:
  "run Finite [(''isOpen'', JBool True)] [Open test_path test_options, Close]
     = ([Return (Rejected AlreadyOpen), Return (Resolved JUndefined)], [(''isOpen'', JBool True)])
   \<and> run Finite [(''isOpen'', JBool False)] [Close]
     = ([Return (Rejected NotOpen)], [(''isOpen'', JBool False)])"
  using lifecycle_of_base_binding [of Finite "[(''isOpen'', JBool True)]"]
    lifecycle_of_base_binding [of Finite "[(''isOpen'', JBool False)]"]
  by (simp add: isOpen_def own_def)

text \<open>
  C3 as stated fails at its first step: after the first \<^verbatim>\<open>open\<close> has resolved,
  \<^verbatim>\<open>isOpen\<close> is not \<^verbatim>\<open>true\<close>; so the second \<^verbatim>\<open>open\<close> resolves instead of rejecting
  with \<open>AlreadyOpen\<close>, and the first \<^verbatim>\<open>close()\<close> rejects with \<open>NotOpen\<close> instead of
  resolving.
\<close>

theorem lifecycle_counterexample:
  "constructor test_config = Inr []
   \<and> invoke Finite [] (Open test_path test_options) = (Return (Resolved JUndefined), [])
   \<and> isOpen (snd (invoke Finite [] (Open test_path test_options))) \<noteq> JBool True
   \<and> run Finite [] [Open test_path test_options, Open test_path test_options, Close, Close]
       = ([Return (Resolved JUndefined), Return (Resolved JUndefined),
           Return (Rejected NotOpen), Return (Rejected NotOpen)], [])
   \<and> run Finite [] [Open test_path test_options, Open test_path test_options, Close, Close]
       \<noteq> ([Return (Resolved JUndefined), Return (Rejected AlreadyOpen),
           Return (Resolved JUndefined), Return (Rejected NotOpen)], [])"
  by (simp add: constructor_def test_config_def test_path_def test_options_def
      isOpen_def own_def open_port_def close_def)

section \<open>Reading\<close>

text \<open>
  C5: for every Buffer and all numbers offset and length with
  \<^verbatim>\<open>buffer.length < offset + length\<close> (the sum and the comparison as the program computes
  them), \<^verbatim>\<open>read\<close> returns a promise rejected with \<open>BufferTooSmall\<close>, whatever the state
  of the binding; the buffer holds the same bytes after the call, and the binding is
  unchanged.
\<close>

theorem read_beyond_capacity:
  assumes "num_lt (Finite (of_nat (length bytes))) (num_add rnd off len)"
  shows "read rnd this (JBuf bytes) (JNum off) (JNum len)
           = (Return (Rejected BufferTooSmall), this, JBuf bytes)"
  using assms by (simp add: read_def)

theorem read_beyond_capacity_witness:
  "read Finite [(''isOpen'', JBool True)] (JBuf [1, 2, 3, 4]) (JNum (Finite 2)) (JNum (Finite 3))
     = (Return (Rejected BufferTooSmall), [(''isOpen'', JBool True)], JBuf [1, 2, 3, 4])"
  using read_beyond_capacity
    [of "[1, 2, 3, 4]" Finite "Finite 2" "Finite 3" "[(''isOpen'', JBool True)]"]
  by simp

text \<open>
  C9: on a binding whose \<^verbatim>\<open>isOpen\<close> is false (or any falsy value), \<^verbatim>\<open>read\<close> with a
  Buffer and numbers offset and length such that \<^verbatim>\<open>buffer.length < offset + length\<close>
  rejects with \<open>BufferTooSmall\<close>, not with \<open>NotOpen\<close>: the capacity is checked before
  the state. \<open>NotOpen\<close> is what the same binding reports once the range fits.
\<close>

theorem closed_read_checks_capacity_first:
  assumes "\<not> truthy (isOpen this)"
  shows "(num_lt (Finite (of_nat (length bytes))) (num_add rnd off len) \<longrightarrow>
            fst (read rnd this (JBuf bytes) (JNum off) (JNum len)) = Return (Rejected BufferTooSmall)
          \<and> fst (read rnd this (JBuf bytes) (JNum off) (JNum len)) \<noteq> Return (Rejected NotOpen))
       \<and> (\<not> num_lt (Finite (of_nat (length bytes))) (num_add rnd off len) \<longrightarrow>
            fst (read rnd this (JBuf bytes) (JNum off) (JNum len)) = Return (Rejected NotOpen))"
  using assms by (simp add: read_def)

theorem closed_read_checks_capacity_first_witness:
  "fst (read Finite [(''isOpen'', JBool False)] (JBuf [0, 0]) (JNum (Finite 1)) (JNum (Finite 2)))
     = Return (Rejected BufferTooSmall)
   \<and> fst (read Finite [(''isOpen'', JBool False)] (JBuf [0, 0]) (JNum (Finite 1)) (JNum (Finite 1)))
     = Return (Rejected NotOpen)"
  using closed_read_checks_capacity_first
      [of "[(''isOpen'', JBool False)]" "[0, 0]" Finite "Finite 1" "Finite 2"]
    closed_read_checks_capacity_first
      [of "[(''isOpen'', JBool False)]" "[0, 0]" Finite "Finite 1" "Finite 1"]
  by (simp add: isOpen_def own_def)

text \<open>
  C10: \<^verbatim>\<open>read\<close> accepts every value of type number for offset and length, negative
  and fractional ones, infinities and \<^verbatim>\<open>NaN\<close> included: with a Buffer and two numbers it
  never throws, whether the range fits the buffer or not. With a Buffer, it throws if
  and only if offset or length is not of type number: the offset's \<^verbatim>\<open>TypeError\<close> exactly
  when the offset is not a number, the length's exactly when the offset is a number and
  the length is not.
\<close>

theorem read_accepts_every_number:
  \<open>\<not> is_Throw (fst (read rnd this (JBuf bytes) (JNum off) (JNum len)))
   \<and> (is_Throw (fst (read rnd this (JBuf bytes) offset l))
        \<longleftrightarrow> typeof offset \<noteq> ''number'' \<or> typeof l \<noteq> ''number'')
   \<and> (fst (read rnd this (JBuf bytes) offset l) = Throw (TypeError ''"offset" is not an integer'')
        \<longleftrightarrow> typeof offset \<noteq> ''number'')
   \<and> (fst (read rnd this (JBuf bytes) offset l) = Throw (TypeError ''"length" is not an integer'')
        \<longleftrightarrow> typeof offset = ''number'' \<and> typeof l \<noteq> ''number'')\<close>
  by (simp add: read_def)

theorem read_accepts_every_number_witness:
  "\<not> is_Throw (fst (read Finite [] (JBuf [0, 0, 0, 0])
                     (JNum (Finite (- 1 / 2))) (JNum (Finite (3 / 2)))))
   \<and> is_Throw (fst (read Finite [] (JBuf [0, 0, 0, 0]) (JStr ''0'') (JNum (Finite 1))))"
  using read_accepts_every_number
    [of Finite "[]" "[0, 0, 0, 0]" "Finite (- 1 / 2)" "Finite (3 / 2)" "JStr ''0''" "JNum (Finite 1)"]
  by simp

section \<open>Operations on a closed binding\<close>

text \<open>
  C1, as the code has it: for every binding whose \<^verbatim>\<open>isOpen\<close> is false (or any falsy
  value) and every call of \<^verbatim>\<open>read\<close>, \<^verbatim>\<open>write\<close>, \<^verbatim>\<open>update\<close>, \<^verbatim>\<open>set\<close>, \<^verbatim>\<open>get\<close>,
  \<^verbatim>\<open>flush\<close>, \<^verbatim>\<open>drain\<close> or \<^verbatim>\<open>close\<close> with well-typed arguments, the call returns a
  promise rejected with \<open>NotOpen\<close> (\<^verbatim>\<open>Port is not open\<close>) and leaves the binding as it
  was, provided that a \<^verbatim>\<open>read\<close> does not ask for more than its buffer holds.
\<close>

theorem closed_io_reports_not_open:
  assumes "\<not> truthy (isOpen this)" and "io_operation c" and "well_typed c"
    and "\<not> exceeds_capacity rnd c"
  shows "invoke rnd this c = (Return (Rejected NotOpen), this)"
  using assms
  by (cases c) (auto simp: method_defs baudRate_numeric_def split: sum.splits)

theorem closed_io_reports_not_open_witness:
  "invoke Finite [(''isOpen'', JBool False)] (Read (JBuf [0, 0]) (JNum (Finite 1)) (JNum (Finite 1)))
     = (Return (Rejected NotOpen), [(''isOpen'', JBool False)])
   \<and> invoke Finite [(''isOpen'', JBool False)] (Update test_options)
     = (Return (Rejected NotOpen), [(''isOpen'', JBool False)])
   \<and> invoke Finite [(''isOpen'', JBool False)] Close
     = (Return (Rejected NotOpen), [(''isOpen'', JBool False)])"
  using closed_io_reports_not_open [of "[(''isOpen'', JBool False)]"
      "Read (JBuf [0, 0]) (JNum (Finite 1)) (JNum (Finite 1))" Finite]
    closed_io_reports_not_open [of "[(''isOpen'', JBool False)]" "Update test_options" Finite]
    closed_io_reports_not_open [of "[(''isOpen'', JBool False)]" Close Finite]
  by (simp add: isOpen_def own_def test_options_def baudRate_numeric_def)

text \<open>
  C1 as stated fails for \<^verbatim>\<open>read\<close>: on a binding whose \<^verbatim>\<open>isOpen\<close> is \<^verbatim>\<open>false\<close>,
  \<^verbatim>\<open>read(Buffer.alloc(2), 1, 2)\<close> has well-typed arguments and rejects with
  \<^verbatim>\<open>buffer is too small\<close>, not with \<open>NotOpen\<close>.
\<close>

theorem closed_read_not_open_counterexample:
  "isOpen [(''isOpen'', JBool False)] = JBool False
   \<and> io_operation (Read (JBuf [0, 0]) (JNum (Finite 1)) (JNum (Finite 2)))
   \<and> well_typed (Read (JBuf [0, 0]) (JNum (Finite 1)) (JNum (Finite 2)))
   \<and> invoke Finite [(''isOpen'', JBool False)] (Read (JBuf [0, 0]) (JNum (Finite 1)) (JNum (Finite 2)))
       = (Return (Rejected BufferTooSmall), [(''isOpen'', JBool False)])
   \<and> fst (invoke Finite [(''isOpen'', JBool False)]
             (Read (JBuf [0, 0]) (JNum (Finite 1)) (JNum (Finite 2))))
       \<noteq> Return (Rejected NotOpen)"
  by (simp add: isOpen_def own_def read_def)

section \<open>The two failure channels\<close>




end
